theory Spec2Isabelle
  imports Main
begin

section \<open>The rules engine called by the hooks\<close>

text \<open>
  The hooks import \<^verbatim>\<open>Chess\<close> from the library chess.js, which is not part of the
  repository. Every hook below therefore takes the engine as a parameter \<open>E\<close>: a record
  with one field for each method the source calls on a \<^verbatim>\<open>Chess\<close> object. The object is a
  value of an arbitrary type \<open>'g\<close>; a method that mutates the object returns the
  mutated object. A move or a position record that the engine refuses leaves the object
  as it was (section 4.1 of the specification: illegal input yields no success and the
  position is unchanged). A game record can be refused after the engine has begun to
  rebuild the object, so a failing \<^verbatim>\<open>loadPgn\<close> hands back the object as the engine left it.

  The source guards \<^verbatim>\<open>game.move\<close> twice (a \<^verbatim>\<open>try\<close>/\<^verbatim>\<open>catch\<close> and a test of the returned
  value), so the model keeps the three ways a move request can end.
\<close>

datatype color = Turn_w | Turn_b

datatype move_arg =
    MoveObject string string "string option"  \<comment> \<open>\<^verbatim>\<open>game.move({ from, to, promotion })\<close>\<close>
  | MoveSan string                             \<comment> \<open>\<^verbatim>\<open>game.move(san)\<close>\<close>

datatype 'g move_result =
    Moved 'g        \<comment> \<open>the move was made; the object after it\<close>
  | ReturnedNull    \<comment> \<open>the call returned a falsy value\<close>
  | Threw           \<comment> \<open>the call threw\<close>

text \<open>A call either returns or lets an exception escape; both leave a state behind.\<close>

datatype 's outcome = Returns 's | Throws 's

fun state_of :: "'s outcome \<Rightarrow> 's" where
  "state_of (Returns s) = s"
| "state_of (Throws s) = s"

record 'g engine =
  chess_new :: 'g                                        \<comment> \<open>\<^verbatim>\<open>new Chess()\<close>\<close>
  chess_from_fen :: "string \<Rightarrow> 'g option"               \<comment> \<open>\<^verbatim>\<open>new Chess(fen)\<close>; \<open>None\<close>: it throws\<close>
  chess_fen :: "'g \<Rightarrow> string"                           \<comment> \<open>\<^verbatim>\<open>fen()\<close>\<close>
  chess_history :: "'g \<Rightarrow> string list"                  \<comment> \<open>\<^verbatim>\<open>history()\<close>\<close>
  chess_isGameOver :: "'g \<Rightarrow> bool"                      \<comment> \<open>\<^verbatim>\<open>isGameOver()\<close>\<close>
  chess_turn :: "'g \<Rightarrow> color"                           \<comment> \<open>\<^verbatim>\<open>turn()\<close>\<close>
  chess_move :: "'g \<Rightarrow> move_arg \<Rightarrow> 'g move_result"    \<comment> \<open>\<^verbatim>\<open>move(...)\<close>\<close>
  chess_undo :: "'g \<Rightarrow> 'g option"                       \<comment> \<open>\<^verbatim>\<open>undo()\<close>; \<open>None\<close>: it returns null\<close>
  chess_reset :: "'g \<Rightarrow> 'g"                             \<comment> \<open>\<^verbatim>\<open>reset()\<close>\<close>
  chess_load :: "'g \<Rightarrow> string \<Rightarrow> 'g option"             \<comment> \<open>\<^verbatim>\<open>load(fen)\<close>; \<open>None\<close>: it throws\<close>
  chess_loadPgn :: "'g \<Rightarrow> string \<Rightarrow> 'g outcome"         \<comment> \<open>\<^verbatim>\<open>loadPgn(pgn)\<close>\<close>
  chess_pgn :: "'g \<Rightarrow> string"                           \<comment> \<open>\<^verbatim>\<open>pgn()\<close>\<close>

section \<open>Data model\<close>

text \<open>\<^verbatim>\<open>ChessLine\<close> of \<^verbatim>\<open>types/index.ts\<close>.\<close>

record ChessLine =
  description :: string
  moves :: "string list"        \<comment> \<open>UCI format\<close>
  moves_san :: "string list"    \<comment> \<open>SAN format for display\<close>
  evaluation :: "int option"

text \<open>\<^verbatim>\<open>ExplorationState\<close> of \<^verbatim>\<open>useExploration\<close>.\<close>

record ExplorationState =
  isActive :: bool
  currentLine :: "ChessLine option"
  currentPosition :: int
  savedFen :: string
  savedMoveIndex :: int
  savedMoveHistory :: "string list"

text \<open>\<^verbatim>\<open>ChessGameState\<close> of \<^verbatim>\<open>useChessGame\<close>.\<close>

record ChessGameState =
  fen :: string
  moveHistory :: "string list"  \<comment> \<open>SAN notation\<close>
  currentMoveIndex :: int
  isGameOver :: bool
  turn :: color

text \<open>
  The state behind \<^verbatim>\<open>useChessGame\<close>: the mutable \<^verbatim>\<open>Chess\<close> object \<^verbatim>\<open>game\<close> and the React
  state \<^verbatim>\<open>gameState\<close>. The state behind \<^verbatim>\<open>useGameState\<close> adds the exploration state.
\<close>

record 'g ChessGame =
  game :: 'g
  gameState :: ChessGameState

record 'g GameHooks =
  chessGame :: "'g ChessGame"
  exploration :: ExplorationState

text \<open>What \<^verbatim>\<open>exitExploration\<close> returns.\<close>

record SavedState =
  saved_fen :: string
  saved_moveIndex :: int
  saved_moveHistory :: "string list"

section \<open>useExploration\<close>

definition initialExploration :: ExplorationState where
  "initialExploration =
     \<lparr>isActive = False, currentLine = None, currentPosition = 0,
      savedFen = [], savedMoveIndex = - 1, savedMoveHistory = []\<rparr>"

definition enterExploration ::
  "ChessLine \<Rightarrow> string \<Rightarrow> int \<Rightarrow> string list \<Rightarrow> ExplorationState" where
  "enterExploration line currentFen moveIndex history =
     \<lparr>isActive = True, currentLine = Some line, currentPosition = 0,
      savedFen = currentFen, savedMoveIndex = moveIndex, savedMoveHistory = history\<rparr>"

definition exitExploration :: "ExplorationState \<Rightarrow> SavedState \<times> ExplorationState" where
  "exitExploration x =
     (\<lparr>saved_fen = savedFen x, saved_moveIndex = savedMoveIndex x,
       saved_moveHistory = savedMoveHistory x\<rparr>,
      initialExploration)"

text \<open>
  \<^verbatim>\<open>Math.min(prev.currentPosition + 1, (prev.currentLine?.moves.length || 1) - 1)\<close>:
  the length counts as 1 when there is no line or the line has no move.
\<close>

definition lengthOr1 :: "ChessLine option \<Rightarrow> int" where
  "lengthOr1 l =
     (case l of
        None \<Rightarrow> 1
      | Some line \<Rightarrow> (if length (moves line) = 0 then 1 else int (length (moves line))))"

definition nextPosition :: "ExplorationState \<Rightarrow> ExplorationState" where
  "nextPosition prev =
     prev\<lparr>currentPosition := min (currentPosition prev + 1) (lengthOr1 (currentLine prev) - 1)\<rparr>"

definition previousPosition :: "ExplorationState \<Rightarrow> ExplorationState" where
  "previousPosition prev = prev\<lparr>currentPosition := max (currentPosition prev - 1) 0\<rparr>"

text \<open>A sequence of \<^verbatim>\<open>nextPosition\<close> and \<^verbatim>\<open>previousPosition\<close> calls.\<close>

datatype nav = Next | Previous

fun navigate :: "ExplorationState \<Rightarrow> nav list \<Rightarrow> ExplorationState" where
  "navigate x [] = x"
| "navigate x (Next # ns) = navigate (nextPosition x) ns"
| "navigate x (Previous # ns) = navigate (previousPosition x) ns"

section \<open>useChessGame\<close>

definition updateGameState :: "'g engine \<Rightarrow> 'g ChessGame \<Rightarrow> 'g ChessGame" where
  "updateGameState E c =
     c\<lparr>gameState :=
         \<lparr>fen = chess_fen E (game c),
          moveHistory = chess_history E (game c),
          currentMoveIndex = int (length (chess_history E (game c))) - 1,
          isGameOver = chess_isGameOver E (game c),
          turn = chess_turn E (game c)\<rparr>\<rparr>"

definition useChessGame :: "'g engine \<Rightarrow> 'g ChessGame" where
  "useChessGame E =
     \<lparr>game = chess_new E,
      gameState =
        \<lparr>fen = chess_fen E (chess_new E), moveHistory = [], currentMoveIndex = - 1,
         isGameOver = False, turn = Turn_w\<rparr>\<rparr>"

text \<open>\<^verbatim>\<open>promotion || 'q'\<close>: an absent or empty promotion becomes \<^verbatim>\<open>'q'\<close>.\<close>

definition promotionOrQ :: "string option \<Rightarrow> string" where
  "promotionOrQ promotion =
     (case promotion of None \<Rightarrow> ''q'' | Some p \<Rightarrow> (if p = [] then ''q'' else p))"

definition makeMove ::
  "'g engine \<Rightarrow> 'g ChessGame \<Rightarrow> string \<Rightarrow> string \<Rightarrow> string option \<Rightarrow> bool \<times> 'g ChessGame" where
  "makeMove E c from_sq to_sq promotion =
     (case chess_move E (game c) (MoveObject from_sq to_sq (Some (promotionOrQ promotion))) of
        Moved g' \<Rightarrow> (True, updateGameState E (c\<lparr>game := g'\<rparr>))
      | ReturnedNull \<Rightarrow> (False, c)
      | Threw \<Rightarrow> (False, c))"

definition undoMove :: "'g engine \<Rightarrow> 'g ChessGame \<Rightarrow> bool \<times> 'g ChessGame" where
  "undoMove E c =
     (case chess_undo E (game c) of
        Some g' \<Rightarrow> (True, updateGameState E (c\<lparr>game := g'\<rparr>))
      | None \<Rightarrow> (False, c))"

definition resetGame :: "'g engine \<Rightarrow> 'g ChessGame \<Rightarrow> 'g ChessGame" where
  "resetGame E c = updateGameState E (c\<lparr>game := chess_reset E (game c)\<rparr>)"

definition loadFen :: "'g engine \<Rightarrow> 'g ChessGame \<Rightarrow> string \<Rightarrow> bool \<times> 'g ChessGame" where
  "loadFen E c f =
     (case chess_load E (game c) f of
        Some g' \<Rightarrow> (True, updateGameState E (c\<lparr>game := g'\<rparr>))
      | None \<Rightarrow> (False, c))"

definition loadPgn :: "'g engine \<Rightarrow> 'g ChessGame \<Rightarrow> string \<Rightarrow> bool \<times> 'g ChessGame" where
  "loadPgn E c pgn =
     (case chess_loadPgn E (game c) pgn of
        Returns g' \<Rightarrow> (True, updateGameState E (c\<lparr>game := g'\<rparr>))
      | Throws g' \<Rightarrow> (False, c\<lparr>game := g'\<rparr>))"

text \<open>
  The loop \<^verbatim>\<open>moves.forEach((move) => { game.move(move); })\<close> of \<^verbatim>\<open>gotoMove\<close>: the result
  of each call is dropped and nothing catches a throw, which ends the loop and \<^verbatim>\<open>gotoMove\<close>
  with the object as the moves made so far left it.
\<close>

fun replay :: "'g engine \<Rightarrow> 'g \<Rightarrow> string list \<Rightarrow> 'g outcome" where
  "replay E g [] = Returns g"
| "replay E g (m # ms) =
     (case chess_move E g (MoveSan m) of
        Moved g' \<Rightarrow> replay E g' ms
      | ReturnedNull \<Rightarrow> replay E g ms
      | Threw \<Rightarrow> Throws g)"

text \<open>
  \<^verbatim>\<open>gotoMove\<close> reads \<^verbatim>\<open>gameState.moveHistory\<close> from its closure: the React state of the
  render that created the callback (\<open>rendered\<close>), not a value set earlier in the same
  event. \<open>c\<close> is the live state: the object, and the \<^verbatim>\<open>gameState\<close> that was set last.
  \<^verbatim>\<open>slice(0, index + 1)\<close> runs with \<open>- 1 \<le> index\<close>, so it is \<open>take\<close>.
\<close>

definition gotoMove ::
  "'g engine \<Rightarrow> ChessGameState \<Rightarrow> 'g ChessGame \<Rightarrow> int \<Rightarrow> 'g ChessGame outcome" where
  "gotoMove E rendered c index =
     (if index < - 1 \<or> int (length (moveHistory rendered)) \<le> index then Returns c
      else
        (case replay E (chess_reset E (game c)) (take (nat (index + 1)) (moveHistory rendered)) of
           Throws g' \<Rightarrow> Throws (c\<lparr>game := g'\<rparr>)
         | Returns g' \<Rightarrow>
             Returns
               \<lparr>game = g',
                gameState =
                  \<lparr>fen = chess_fen E g',
                   moveHistory = moveHistory rendered,
                   currentMoveIndex = index,
                   isGameOver = chess_isGameOver E g',
                   turn = chess_turn E g'\<rparr>\<rparr>))"

definition getPgn :: "'g engine \<Rightarrow> 'g ChessGame \<Rightarrow> string" where
  "getPgn E c = chess_pgn E (game c)"

section \<open>useGameState\<close>

text \<open>
  A coordinate-move token is cut into \<^verbatim>\<open>substring(0, 2)\<close>, \<^verbatim>\<open>substring(2, 4)\<close> and, when it is
  longer than four characters, its fifth character.
\<close>

definition uciMove :: "string \<Rightarrow> move_arg" where
  "uciMove moveUci =
     MoveObject (take 2 moveUci) (take 2 (drop 2 moveUci))
       (if 4 < length moveUci then Some [moveUci ! 4] else None)"

text \<open>
  One step of the line loops: \<^verbatim>\<open>try { tempGame.move(...) } catch (e) { console.error(...) }\<close>.
  A refused move leaves the temporary object as it was and the loop goes on to the next
  token. (The message written to the console is not part of the state.)
\<close>

definition tryMove :: "'g engine \<Rightarrow> 'g \<Rightarrow> string \<Rightarrow> 'g" where
  "tryMove E t moveUci =
     (case chess_move E t (uciMove moveUci) of
        Moved t' \<Rightarrow> t'
      | ReturnedNull \<Rightarrow> t
      | Threw \<Rightarrow> t)"

definition applyLine :: "'g engine \<Rightarrow> 'g \<Rightarrow> string list \<Rightarrow> 'g" where
  "applyLine E t ms = foldl (tryMove E) t ms"

definition handleExplore :: "'g engine \<Rightarrow> 'g GameHooks \<Rightarrow> ChessLine \<Rightarrow> 'g GameHooks outcome" where
  "handleExplore E s line =
     (let gs = gameState (chessGame s);
          x = enterExploration line (fen gs) (currentMoveIndex gs) (moveHistory gs)
      in case chess_from_fen E (fen gs) of
           None \<Rightarrow> Throws (s\<lparr>exploration := x\<rparr>)
         | Some tempGame \<Rightarrow>
             Returns
               \<lparr>chessGame =
                  snd (loadFen E (chessGame s) (chess_fen E (applyLine E tempGame (moves line)))),
                exploration = x\<rparr>)"

text \<open>
  The loops of the two navigation handlers run \<open>i\<close> from 0 to the new position \<open>pos\<close> and
  read \<^verbatim>\<open>line.moves[i]\<close>, cutting the token outside the \<^verbatim>\<open>try\<close>: a read past the end of
  the line gives \<^verbatim>\<open>undefined\<close>, and \<^verbatim>\<open>moveUci.substring\<close> throws. Otherwise the tokens read
  are \<open>take (nat (pos + 1)) (moves line)\<close>. \<open>x\<close> is the exploration state set before.
\<close>

definition showPrefix :: "'g engine \<Rightarrow> 'g GameHooks \<Rightarrow> ExplorationState \<Rightarrow> ChessLine \<Rightarrow> int \<Rightarrow>
    'g GameHooks outcome" where
  "showPrefix E s x line pos =
     (case chess_from_fen E (savedFen (exploration s)) of
        None \<Rightarrow> Throws (s\<lparr>exploration := x\<rparr>)
      | Some tempGame \<Rightarrow>
          (if int (length (moves line)) \<le> pos then Throws (s\<lparr>exploration := x\<rparr>)
           else
             Returns
               \<lparr>chessGame =
                  snd (loadFen E (chessGame s)
                    (chess_fen E (applyLine E tempGame (take (nat (pos + 1)) (moves line))))),
                exploration = x\<rparr>))"

definition handleExplorationNext :: "'g engine \<Rightarrow> 'g GameHooks \<Rightarrow> 'g GameHooks outcome" where
  "handleExplorationNext E s =
     (case currentLine (exploration s) of
        None \<Rightarrow> Returns s
      | Some line \<Rightarrow>
          (let nextPos = currentPosition (exploration s) + 1
           in if int (length (moves line)) \<le> nextPos then Returns s
              else showPrefix E s (nextPosition (exploration s)) line nextPos))"

definition handleExplorationPrevious :: "'g engine \<Rightarrow> 'g GameHooks \<Rightarrow> 'g GameHooks outcome" where
  "handleExplorationPrevious E s =
     (case currentLine (exploration s) of
        None \<Rightarrow> Returns s
      | Some line \<Rightarrow>
          (if currentPosition (exploration s) \<le> 0 then Returns s
           else
             (let prevPos = currentPosition (exploration s) - 1
              in showPrefix E s (previousPosition (exploration s)) line prevPos)))"

text \<open>
  \<^verbatim>\<open>handleExitExploration\<close> calls \<^verbatim>\<open>loadFen\<close> and then \<^verbatim>\<open>gotoMove\<close> of the same render:
  \<^verbatim>\<open>gotoMove\<close> sees the move history that was on screen when the handler started.
\<close>

definition handleExitExploration :: "'g engine \<Rightarrow> 'g GameHooks \<Rightarrow> 'g GameHooks outcome" where
  "handleExitExploration E s =
     (let (saved, x) = exitExploration (exploration s);
          c = snd (loadFen E (chessGame s) (saved_fen saved))
      in case gotoMove E (gameState (chessGame s)) c (saved_moveIndex saved) of
           Returns c' \<Rightarrow> Returns \<lparr>chessGame = c', exploration = x\<rparr>
         | Throws c' \<Rightarrow> Throws \<lparr>chessGame = c', exploration = x\<rparr>)"

section \<open>The guard handlers of the game page\<close>

text \<open>
  \<^verbatim>\<open>alert\<close> messages are returned as a list; the answer to \<^verbatim>\<open>window.confirm\<close> is the
  parameter \<open>confirmed\<close>.
\<close>

definition handleMove :: "'g engine \<Rightarrow> 'g GameHooks \<Rightarrow> string \<Rightarrow> string \<Rightarrow> bool \<times> 'g GameHooks" where
  "handleMove E s from_sq to_sq =
     (if isActive (exploration s) then (False, s)
      else
        (let (ok, c) = makeMove E (chessGame s) from_sq to_sq None
         in (ok, s\<lparr>chessGame := c\<rparr>)))"

definition handleNewGame :: "'g engine \<Rightarrow> bool \<Rightarrow> 'g GameHooks \<Rightarrow> string list \<times> 'g GameHooks" where
  "handleNewGame E confirmed s =
     (if isActive (exploration s) then ([''Please exit exploration mode first''], s)
      else if 0 < length (moveHistory (gameState (chessGame s))) then
        (if confirmed then ([], s\<lparr>chessGame := resetGame E (chessGame s)\<rparr>) else ([], s))
      else ([], s\<lparr>chessGame := resetGame E (chessGame s)\<rparr>))"

definition handleUndo :: "'g engine \<Rightarrow> 'g GameHooks \<Rightarrow> 'g GameHooks" where
  "handleUndo E s =
     (if isActive (exploration s) then s
      else s\<lparr>chessGame := snd (undoMove E (chessGame s))\<rparr>)"

definition handleResign :: "bool \<Rightarrow> 'g GameHooks \<Rightarrow> string list \<times> 'g GameHooks" where
  "handleResign confirmed s =
     (if isActive (exploration s) then ([''Please exit exploration mode first''], s)
      else if confirmed then ([''Game resigned''], s)
      else ([], s))"

definition handleMoveClick :: "'g engine \<Rightarrow> 'g GameHooks \<Rightarrow> int \<Rightarrow> 'g GameHooks outcome" where
  "handleMoveClick E s index =
     (if isActive (exploration s) then Returns s
      else
        (case gotoMove E (gameState (chessGame s)) (chessGame s) index of
           Returns c \<Rightarrow> Returns (s\<lparr>chessGame := c\<rparr>)
         | Throws c \<Rightarrow> Throws (s\<lparr>chessGame := c\<rparr>)))"

section \<open>An excerpt of the rules engine\<close>

text \<open>
  A finite excerpt of the behaviour of the rules engine, used to run the hooks on concrete
  inputs: the starting position and the positions after 1. e4 and after 1. e4 e5 (the
  moves of the scenarios in section 8 of the specification). The object is the current
  position and the moves made on it, each with the position it was made in. Loading a
  position forgets the moves made; \<^verbatim>\<open>reset\<close> loads the starting position; \<^verbatim>\<open>undo\<close>
  takes the last move back and returns null when no move was made; a refused move
  throws; a game record is refused after the reset to the starting position. Every
  request outside the excerpt is answered as an illegal one. The
  en-passant field of the position records is written as the FEN standard has it;
  nothing below depends on it.
\<close>

datatype xpos = Start | After_e4 | After_e4_e5

fun x_fen :: "xpos \<Rightarrow> string" where
  "x_fen Start = ''rnbqkbnr/pppppppp/8/8/8/8/PPPPPPPP/RNBQKBNR w KQkq - 0 1''"
| "x_fen After_e4 = ''rnbqkbnr/pppppppp/8/8/4P3/8/PPPP1PPP/RNBQKBNR b KQkq e3 0 1''"
| "x_fen After_e4_e5 = ''rnbqkbnr/pppp1ppp/8/4p3/4P3/8/PPPP1PPP/RNBQKBNR w KQkq e6 0 2''"

definition x_parse :: "string \<Rightarrow> xpos option" where
  "x_parse s =
     (if s = x_fen Start then Some Start
      else if s = x_fen After_e4 then Some After_e4
      else if s = x_fen After_e4_e5 then Some After_e4_e5
      else None)"

record xchess =
  x_pos :: xpos
  x_past :: "(xpos \<times> string) list"  \<comment> \<open>oldest first: the position before the move, its SAN\<close>

fun x_step :: "xpos \<Rightarrow> move_arg \<Rightarrow> (xpos \<times> string) option" where
  "x_step Start (MoveObject f t p) =
     (if f = ''e2'' \<and> t = ''e4'' then Some (After_e4, ''e4'') else None)"
| "x_step Start (MoveSan m) = (if m = ''e4'' then Some (After_e4, ''e4'') else None)"
| "x_step After_e4 (MoveObject f t p) =
     (if f = ''e7'' \<and> t = ''e5'' then Some (After_e4_e5, ''e5'') else None)"
| "x_step After_e4 (MoveSan m) = (if m = ''e5'' then Some (After_e4_e5, ''e5'') else None)"
| "x_step After_e4_e5 a = None"

definition x_fresh :: "xpos \<Rightarrow> xchess" where
  "x_fresh p = \<lparr>x_pos = p, x_past = []\<rparr>"

definition x_move :: "xchess \<Rightarrow> move_arg \<Rightarrow> xchess move_result" where
  "x_move g a =
     (case x_step (x_pos g) a of
        Some (p, san) \<Rightarrow> Moved \<lparr>x_pos = p, x_past = x_past g @ [(x_pos g, san)]\<rparr>
      | None \<Rightarrow> Threw)"

definition x_undo :: "xchess \<Rightarrow> xchess option" where
  "x_undo g =
     (case rev (x_past g) of
        [] \<Rightarrow> None
      | (p, san) # earlier \<Rightarrow> Some \<lparr>x_pos = p, x_past = rev earlier\<rparr>)"

definition x_load :: "string \<Rightarrow> xchess option" where
  "x_load s = (case x_parse s of None \<Rightarrow> None | Some p \<Rightarrow> Some (x_fresh p))"

definition x_loadPgn :: "string \<Rightarrow> xchess outcome" where
  "x_loadPgn text =
     (if text = ''1. e4'' then Returns \<lparr>x_pos = After_e4, x_past = [(Start, ''e4'')]\<rparr>
      else if text = ''1. e4 e5'' then
        Returns \<lparr>x_pos = After_e4_e5, x_past = [(Start, ''e4''), (After_e4, ''e5'')]\<rparr>
      else Throws (x_fresh Start))"

fun x_movetext :: "string list \<Rightarrow> string" where
  "x_movetext [a] = ''1. '' @ a"
| "x_movetext [a, b] = ''1. '' @ a @ '' '' @ b"
| "x_movetext ms = []"

definition xE :: "xchess engine" where
  "xE =
     \<lparr>chess_new = x_fresh Start,
      chess_from_fen = x_load,
      chess_fen = (\<lambda>g. x_fen (x_pos g)),
      chess_history = (\<lambda>g. map snd (x_past g)),
      chess_isGameOver = (\<lambda>g. False),
      chess_turn = (\<lambda>g. if x_pos g = After_e4 then Turn_b else Turn_w),
      chess_move = x_move,
      chess_undo = x_undo,
      chess_reset = (\<lambda>g. x_fresh Start),
      chess_load = (\<lambda>g. x_load),
      chess_loadPgn = (\<lambda>g. x_loadPgn),
      chess_pgn = (\<lambda>g. x_movetext (map snd (x_past g)))\<rparr>"

text \<open>A suggested line with the given coordinate moves, and the session at its start.\<close>

definition x_line :: "string list \<Rightarrow> ChessLine" where
  "x_line ms = \<lparr>description = ''line'', moves = ms, moves_san = [], evaluation = None\<rparr>"

definition x_session :: "xchess GameHooks" where
  "x_session = \<lparr>chessGame = useChessGame xE, exploration = initialExploration\<rparr>"

section \<open>Properties of the rules engine that the theorems assume\<close>

text \<open>
  The engine refuses a move request when the call returns a falsy value or throws.
\<close>

definition refuses :: "'g engine \<Rightarrow> 'g \<Rightarrow> move_arg \<Rightarrow> bool" where
  "refuses E g a =
     (case chess_move E g a of Moved g' \<Rightarrow> False | ReturnedNull \<Rightarrow> True | Threw \<Rightarrow> True)"

text \<open>\<^verbatim>\<open>undo()\<close> returns null on an object with no move made.\<close>

definition undo_needs_history :: "'g engine \<Rightarrow> bool" where
  "undo_needs_history E = (\<forall>g. chess_history E g = [] \<longrightarrow> chess_undo E g = None)"

text \<open>A new object has no move made, and neither has an object after \<^verbatim>\<open>load(fen)\<close>.\<close>

definition new_has_no_history :: "'g engine \<Rightarrow> bool" where
  "new_has_no_history E = (chess_history E (chess_new E) = [])"

definition load_clears_history :: "'g engine \<Rightarrow> bool" where
  "load_clears_history E = (\<forall>g f g'. chess_load E g f = Some g' \<longrightarrow> chess_history E g' = [])"


text \<open>
  \<^verbatim>\<open>undo()\<close> removes the last move from the history, and after a move that was made it
  gives back the object as it was before that move.
\<close>

definition undo_pops :: "'g engine \<Rightarrow> bool" where
  "undo_pops E =
     (\<forall>g g'. chess_undo E g = Some g' \<longrightarrow> chess_history E g' = butlast (chess_history E g))"

definition undo_takes_back :: "'g engine \<Rightarrow> bool" where
  "undo_takes_back E = (\<forall>g a g'. chess_move E g a = Moved g' \<longrightarrow> chess_undo E g' = Some g)"

section \<open>The replay of the specification\<close>

text \<open>
  Section 4.2 of the specification has \<^verbatim>\<open>gotoMove(index)\<close> replay the moves \<open>[0..index]\<close>
  from the initial position. \<open>spec_replay\<close> is that replay, written from these words and
  not from the loop of the source: the recorded moves are made one after the other, and
  there is a position reached only when the engine makes every one of them.
\<close>

definition thenMove :: "'g engine \<Rightarrow> 'g option \<Rightarrow> string \<Rightarrow> 'g option" where
  "thenMove E r m =
     (case r of
        None \<Rightarrow> None
      | Some g \<Rightarrow>
          (case chess_move E g (MoveSan m) of
             Moved g' \<Rightarrow> Some g'
           | ReturnedNull \<Rightarrow> None
           | Threw \<Rightarrow> None))"

definition spec_replay :: "'g engine \<Rightarrow> 'g \<Rightarrow> string list \<Rightarrow> 'g option" where
  "spec_replay E g ms = foldl (thenMove E) (Some g) ms"

section \<open>Concrete sessions on the excerpt\<close>

text \<open>The session after \<^verbatim>\<open>handleExplore\<close> of the line e2e4 e7e5 at the start.\<close>

definition x_exploring :: "xchess GameHooks" where
  "x_exploring = state_of (handleExplore xE x_session (x_line [''e2e4'', ''e7e5'']))"

text \<open>The session after the moves e2-e4 and e7-e5 on the board.\<close>

definition x_played :: "xchess GameHooks" where
  "x_played = snd (handleMove xE (snd (handleMove xE x_session ''e2'' ''e4'')) ''e7'' ''e5'')"


text \<open>
  The session after the moves e2-e4 and e7-e5 and a click on the first move of the
  history, and the session after the move e2-e4 alone.
\<close>

definition x_browsing :: "xchess GameHooks" where
  "x_browsing = state_of (handleMoveClick xE x_played 0)"

definition x_moved :: "xchess GameHooks" where
  "x_moved = snd (handleMove xE x_session ''e2'' ''e4'')"

text \<open>
  The session after the move e2-e4, \<^verbatim>\<open>handleExplore\<close> of the line e7e5 and
  \<^verbatim>\<open>handleExitExploration\<close>; the same session after the move e7-e5 on the board; and the
  game hook of that session after \<^verbatim>\<open>gotoMove(-1)\<close>.
\<close>

definition x_left :: "xchess GameHooks" where
  "x_left = state_of (handleExitExploration xE (state_of (handleExplore xE x_moved (x_line [''e7e5'']))))"

definition x_resumed :: "xchess GameHooks" where
  "x_resumed = snd (handleMove xE x_left ''e7'' ''e5'')"

definition x_rewound :: "xchess ChessGame" where
  "x_rewound =
     state_of (gotoMove xE (gameState (chessGame x_resumed)) (chessGame x_resumed) (- 1))"

section \<open>Navigation bounds\<close>

lemma lengthOr1_pos: "1 \<le> lengthOr1 l"
  by (cases l) (auto simp: lengthOr1_def Suc_le_eq)

lemma nextPosition_line [simp]: "currentLine (nextPosition x) = currentLine x"
  by (simp add: nextPosition_def)

lemma previousPosition_line [simp]: "currentLine (previousPosition x) = currentLine x"
  by (simp add: previousPosition_def)

lemma navigate_line [simp]: "currentLine (navigate x ns) = currentLine x"
  by (induction x ns rule: navigate.induct) simp_all

lemma navigate_bounds:
  "0 \<le> currentPosition x \<Longrightarrow> currentPosition x \<le> lengthOr1 (currentLine x) - 1 \<Longrightarrow>
   0 \<le> currentPosition (navigate x ns) \<and>
   currentPosition (navigate x ns) \<le> lengthOr1 (currentLine x) - 1"
proof (induction x ns rule: navigate.induct)
  case (1 x)
  then show ?case by simp
next
  case (2 x ns)
  have "1 \<le> lengthOr1 (currentLine x)" by (rule lengthOr1_pos)
  with 2 show ?case by (simp add: nextPosition_def)
next
  case (3 x ns)
  then show ?case by (simp add: previousPosition_def)
qed

text \<open>
  C8 (as amended). After \<^verbatim>\<open>enterExploration\<close> and any sequence of \<^verbatim>\<open>nextPosition\<close> and
  \<^verbatim>\<open>previousPosition\<close> calls, \<open>currentPosition\<close> lies between 0 and the larger of
  \<open>length (moves line) - 1\<close> and 0: within \<open>[0, length - 1]\<close> for a line with a move, and 0
  for a line without one.
\<close>

theorem currentPosition_stays_in_range:
  "0 \<le> currentPosition (navigate (enterExploration line f i h) ns) \<and>
   currentPosition (navigate (enterExploration line f i h) ns)
     \<le> max (int (length (moves line)) - 1) 0"
proof -
  let ?x = "enterExploration line f i h"
  have start: "0 \<le> currentPosition ?x" "currentPosition ?x \<le> lengthOr1 (currentLine ?x) - 1"
    using lengthOr1_pos [of "currentLine ?x"] by (simp_all add: enterExploration_def)
  have "lengthOr1 (currentLine ?x) - 1 = max (int (length (moves line)) - 1) 0"
    by (simp add: enterExploration_def lengthOr1_def)
  with navigate_bounds [OF start] show ?thesis by simp
qed

text \<open>
  C8 (counterexample). For a line without moves the range \<open>[0, length - 1]\<close> is empty, and
  \<open>currentPosition\<close> is 0 after entering and after every call.
\<close>

theorem currentPosition_empty_line_counterexample:
  "currentPosition (navigate (enterExploration (x_line []) (x_fen Start) (- 1) []) [Next, Previous]) = 0 \<and>
   int (length (moves (x_line []))) - 1 = - 1 \<and>
   \<not> currentPosition (navigate (enterExploration (x_line []) (x_fen Start) (- 1) []) [Next, Previous])
       \<le> int (length (moves (x_line []))) - 1"
  by (simp add: enterExploration_def x_line_def nextPosition_def previousPosition_def lengthOr1_def)

section \<open>Evaluating the excerpt\<close>

lemmas x_engine_simps =
  xE_def x_load_def x_parse_def x_fresh_def x_move_def x_undo_def x_loadPgn_def

lemmas hook_simps =
  useChessGame_def updateGameState_def makeMove_def undoMove_def resetGame_def loadFen_def
  loadPgn_def gotoMove_def promotionOrQ_def

lemmas coordinator_simps =
  handleExplore_def handleExplorationNext_def handleExplorationPrevious_def
  handleExitExploration_def showPrefix_def applyLine_def tryMove_def uciMove_def
  enterExploration_def exitExploration_def initialExploration_def nextPosition_def
  previousPosition_def lengthOr1_def x_line_def x_session_def

lemma x_exploring_eq:
  "x_exploring =
     \<lparr>chessGame =
        \<lparr>game = x_fresh After_e4_e5,
         gameState = \<lparr>fen = x_fen After_e4_e5, moveHistory = [], currentMoveIndex = - 1,
           isGameOver = False, turn = Turn_w\<rparr>\<rparr>,
      exploration =
        \<lparr>isActive = True, currentLine = Some (x_line [''e2e4'', ''e7e5'']), currentPosition = 0,
         savedFen = x_fen Start, savedMoveIndex = - 1, savedMoveHistory = []\<rparr>\<rparr>"
  by (simp add: x_exploring_def x_engine_simps hook_simps coordinator_simps)

lemma x_moved_eq:
  "x_moved =
     \<lparr>chessGame =
        \<lparr>game = \<lparr>x_pos = After_e4, x_past = [(Start, ''e4'')]\<rparr>,
         gameState = \<lparr>fen = x_fen After_e4, moveHistory = [''e4''], currentMoveIndex = 0,
           isGameOver = False, turn = Turn_b\<rparr>\<rparr>,
      exploration = initialExploration\<rparr>"
  by (simp add: x_moved_def handleMove_def x_engine_simps hook_simps x_session_def
      initialExploration_def)

lemma x_played_eq:
  "x_played =
     \<lparr>chessGame =
        \<lparr>game = \<lparr>x_pos = After_e4_e5, x_past = [(Start, ''e4''), (After_e4, ''e5'')]\<rparr>,
         gameState = \<lparr>fen = x_fen After_e4_e5, moveHistory = [''e4'', ''e5''], currentMoveIndex = 1,
           isGameOver = False, turn = Turn_w\<rparr>\<rparr>,
      exploration = initialExploration\<rparr>"
  by (simp add: x_played_def handleMove_def x_engine_simps hook_simps x_session_def
      initialExploration_def)

lemma x_browsing_eq:
  "x_browsing =
     \<lparr>chessGame =
        \<lparr>game = \<lparr>x_pos = After_e4, x_past = [(Start, ''e4'')]\<rparr>,
         gameState = \<lparr>fen = x_fen After_e4, moveHistory = [''e4'', ''e5''], currentMoveIndex = 0,
           isGameOver = False, turn = Turn_b\<rparr>\<rparr>,
      exploration = initialExploration\<rparr>"
  by (simp add: x_browsing_def x_played_eq handleMoveClick_def x_engine_simps hook_simps
      initialExploration_def)

section \<open>Guards of the game page\<close>

text \<open>
  C3. While \<open>isActive\<close> is true, the board move, new game, undo, resign and history-click
  handlers change nothing: each returns the whole session (the object and the
  \<^verbatim>\<open>gameState\<close> included) as it was; the board move returns false, and new game and
  resign show the guard message.
\<close>

theorem guards_reject_while_exploring:
  "isActive (exploration s) \<Longrightarrow>
   handleMove E s from_sq to_sq = (False, s) \<and>
   handleNewGame E confirmed s = ([''Please exit exploration mode first''], s) \<and>
   handleUndo E s = s \<and>
   handleResign confirmed s = ([''Please exit exploration mode first''], s) \<and>
   handleMoveClick E s index = Returns s"
  by (simp add: handleMove_def handleNewGame_def handleUndo_def handleResign_def
      handleMoveClick_def)

text \<open>C3 at the session exploring the line e2e4 e7e5.\<close>

theorem guards_reject_while_exploring_witness:
  "isActive (exploration x_exploring) \<and>
   handleMove xE x_exploring ''e7'' ''e5'' = (False, x_exploring) \<and>
   handleNewGame xE True x_exploring = ([''Please exit exploration mode first''], x_exploring) \<and>
   handleUndo xE x_exploring = x_exploring \<and>
   handleResign True x_exploring = ([''Please exit exploration mode first''], x_exploring) \<and>
   handleMoveClick xE x_exploring 0 = Returns x_exploring"
proof -
  have active: "isActive (exploration x_exploring)"
    by (simp add: x_exploring_eq)
  from guards_reject_while_exploring [OF active, of xE "''e7''" "''e5''" True 0] active
  show ?thesis by simp
qed

section \<open>Failing operations of the game hook\<close>

text \<open>
  C6. \<^verbatim>\<open>makeMove\<close> with a move that the engine refuses returns false and leaves the state of
  the hook unchanged; so does \<^verbatim>\<open>loadFen\<close> with a position record that the engine refuses.
  \<^verbatim>\<open>loadPgn\<close> with a game record that the engine refuses returns false and leaves
  \<^verbatim>\<open>gameState\<close> unchanged. Each of the three is a total function to a boolean and a state:
  no fault leaves it.
\<close>

theorem failing_operations_return_false:
  "(refuses E (game c) (MoveObject from_sq to_sq (Some (promotionOrQ promotion))) \<longrightarrow>
      makeMove E c from_sq to_sq promotion = (False, c)) \<and>
   (chess_load E (game c) f = None \<longrightarrow> loadFen E c f = (False, c)) \<and>
   (chess_loadPgn E (game c) pgn = Throws g' \<longrightarrow>
      fst (loadPgn E c pgn) = False \<and> gameState (snd (loadPgn E c pgn)) = gameState c)"
  by (simp add: refuses_def makeMove_def loadFen_def loadPgn_def split: move_result.split)

text \<open>
  C6 after the move e2-e4: the move e2-e5, a word that is no position record, and a game
  record that starts with 1. e5.
\<close>

theorem failing_operations_return_false_witness:
  "refuses xE (game (chessGame x_moved)) (MoveObject ''e2'' ''e5'' (Some (promotionOrQ None))) \<and>
   makeMove xE (chessGame x_moved) ''e2'' ''e5'' None = (False, chessGame x_moved) \<and>
   chess_load xE (game (chessGame x_moved)) ''invalid'' = None \<and>
   loadFen xE (chessGame x_moved) ''invalid'' = (False, chessGame x_moved) \<and>
   chess_loadPgn xE (game (chessGame x_moved)) ''1. e5'' = Throws (x_fresh Start) \<and>
   fst (loadPgn xE (chessGame x_moved) ''1. e5'') = False \<and>
   gameState (snd (loadPgn xE (chessGame x_moved) ''1. e5'')) = gameState (chessGame x_moved) \<and>
   moveHistory (gameState (chessGame x_moved)) = [''e4'']"
proof -
  have a: "refuses xE (game (chessGame x_moved)) (MoveObject ''e2'' ''e5'' (Some (promotionOrQ None)))"
    by (simp add: refuses_def x_moved_eq x_engine_simps)
  have b: "chess_load xE (game (chessGame x_moved)) ''invalid'' = None"
    by (simp add: x_engine_simps)
  have c: "chess_loadPgn xE (game (chessGame x_moved)) ''1. e5'' = Throws (x_fresh Start)"
    by (simp add: x_engine_simps)
  have d: "moveHistory (gameState (chessGame x_moved)) = [''e4'']"
    by (simp add: x_moved_eq)
  from failing_operations_return_false
    [of xE "chessGame x_moved" "''e2''" "''e5''" None "''invalid''" "''1. e5''" "x_fresh Start"]
    a b c d
  show ?thesis by blast
qed

section \<open>The game record\<close>

text \<open>
  After a successful \<^verbatim>\<open>loadPgn\<close>, \<^verbatim>\<open>getPgn\<close> is the engine's record of the object that the
  engine built from the text, and \<open>moveHistory\<close> is the history of that object. Whether
  that record has the moves of the text is a property of the engine alone.
\<close>

lemma getPgn_after_loadPgn:
  "chess_loadPgn E (game c) text = Returns g' \<Longrightarrow>
   fst (loadPgn E c text) \<and>
   getPgn E (snd (loadPgn E c text)) = chess_pgn E g' \<and>
   moveHistory (gameState (snd (loadPgn E c text))) = chess_history E g'"
  by (simp add: loadPgn_def getPgn_def updateGameState_def)

section \<open>Undo without a move\<close>

lemma undoMove_no_history:
  "undo_needs_history E \<Longrightarrow> chess_history E (game c) = [] \<Longrightarrow> undoMove E c = (False, c)"
  by (simp add: undo_needs_history_def undoMove_def)

lemma loadFen_no_history:
  "load_clears_history E \<Longrightarrow> fst (loadFen E c f) \<Longrightarrow>
   chess_history E (game (snd (loadFen E c f))) = []"
  by (auto simp: load_clears_history_def loadFen_def updateGameState_def split: option.splits)

text \<open>
  C10. When no move was made on the engine's object, \<^verbatim>\<open>undoMove\<close> returns false and
  leaves the state of the hook unchanged; this is the case in the initial state of the
  hook and after a successful \<^verbatim>\<open>loadFen\<close>. (The engine's \<^verbatim>\<open>undo\<close> returns null when no
  move was made; a new object and a loaded position have no move made.)
\<close>

theorem undo_on_empty_history:
  "undo_needs_history E \<Longrightarrow>
   (chess_history E (game c) = [] \<longrightarrow> undoMove E c = (False, c)) \<and>
   (new_has_no_history E \<longrightarrow> undoMove E (useChessGame E) = (False, useChessGame E)) \<and>
   (load_clears_history E \<longrightarrow> fst (loadFen E c f) \<longrightarrow>
      undoMove E (snd (loadFen E c f)) = (False, snd (loadFen E c f)))"
proof (intro conjI impI)
  assume "undo_needs_history E" "chess_history E (game c) = []"
  then show "undoMove E c = (False, c)" by (rule undoMove_no_history)
next
  assume law: "undo_needs_history E" and "new_has_no_history E"
  then have "chess_history E (game (useChessGame E)) = []"
    by (simp add: new_has_no_history_def useChessGame_def)
  with law show "undoMove E (useChessGame E) = (False, useChessGame E)"
    by (rule undoMove_no_history)
next
  assume law: "undo_needs_history E" and "load_clears_history E" "fst (loadFen E c f)"
  then have "chess_history E (game (snd (loadFen E c f))) = []"
    by (simp add: loadFen_no_history)
  with law show "undoMove E (snd (loadFen E c f)) = (False, snd (loadFen E c f))"
    by (rule undoMove_no_history)
qed

lemma xE_undo_needs_history: "undo_needs_history xE"
  by (simp add: undo_needs_history_def x_engine_simps)

lemma xE_new_has_no_history: "new_has_no_history xE"
  by (simp add: new_has_no_history_def x_engine_simps)

lemma xE_load_clears_history: "load_clears_history xE"
  by (auto simp: load_clears_history_def x_engine_simps split: option.splits)

text \<open>C10 on the excerpt: at the start, and after loading the position after 1. e4.\<close>

theorem undo_on_empty_history_witness:
  "undo_needs_history xE \<and> new_has_no_history xE \<and> load_clears_history xE \<and>
   chess_history xE (game (useChessGame xE)) = [] \<and>
   undoMove xE (useChessGame xE) = (False, useChessGame xE) \<and>
   fst (loadFen xE (useChessGame xE) (x_fen After_e4)) \<and>
   undoMove xE (snd (loadFen xE (useChessGame xE) (x_fen After_e4))) =
     (False, snd (loadFen xE (useChessGame xE) (x_fen After_e4)))"
proof -
  have a: "chess_history xE (game (useChessGame xE)) = []"
    by (simp add: x_engine_simps useChessGame_def)
  have b: "fst (loadFen xE (useChessGame xE) (x_fen After_e4))"
    by (simp add: x_engine_simps hook_simps)
  from undo_on_empty_history [OF xE_undo_needs_history, of "useChessGame xE" "x_fen After_e4"]
    a b xE_undo_needs_history xE_new_has_no_history xE_load_clears_history
  show ?thesis by blast
qed

section \<open>Stepping through a line\<close>








section \<open>Entering a line with a refused move\<close>

text \<open>
  Whether it returns or not, \<^verbatim>\<open>handleExplore\<close> saves the position, the index and the move
  history of the session it is called in.
\<close>

lemma handleExplore_saves_snapshot:
  "exploration (state_of (handleExplore E s line)) =
     enterExploration line (fen (gameState (chessGame s)))
       (currentMoveIndex (gameState (chessGame s))) (moveHistory (gameState (chessGame s)))"
  by (simp add: handleExplore_def Let_def split: option.split)







section \<open>Taking a move back\<close>

lemma xE_undo_pops: "undo_pops xE"
proof -
  have "map snd (rev earlier) = butlast (map snd (x_past g))"
    if "rev (x_past g) = (p, san) # earlier" for g :: xchess and p san earlier
  proof -
    from that have "x_past g = rev earlier @ [(p, san)]"
      by (metis rev.simps(2) rev_rev_ident)
    then show ?thesis by simp
  qed
  then show ?thesis
    by (auto simp: undo_pops_def xE_def x_undo_def split: list.splits)
qed

lemma xE_undo_takes_back: "undo_takes_back xE"
  by (auto simp: undo_takes_back_def xE_def x_undo_def x_move_def split: option.splits)

text \<open>
  C7 (as amended). After a successful \<^verbatim>\<open>undoMove\<close> the state of the hook is read again from
  the engine's object after its own \<^verbatim>\<open>undo\<close>: its history, its last index, its position;
  nothing is replayed. When \<open>moveHistory\<close> was the engine's history (the session at the
  head of its history), the new \<open>moveHistory\<close> is the previous one without its last move.
  When the engine's object was reached from the initial position by the moves of
  \<open>moveHistory\<close>, the new position is the one reached by replaying the remaining prefix
  from the initial position.
\<close>

theorem undo_rereads_engine:
  "chess_undo E (game c) = Some g' \<Longrightarrow>
   fst (undoMove E c) \<and>
   game (snd (undoMove E c)) = g' \<and>
   moveHistory (gameState (snd (undoMove E c))) = chess_history E g' \<and>
   currentMoveIndex (gameState (snd (undoMove E c))) = int (length (chess_history E g')) - 1 \<and>
   fen (gameState (snd (undoMove E c))) = chess_fen E g' \<and>
   (undo_pops E \<and> moveHistory (gameState c) = chess_history E (game c) \<longrightarrow>
      moveHistory (gameState (snd (undoMove E c))) = butlast (moveHistory (gameState c))) \<and>
   (undo_takes_back E \<and>
    replay E (chess_reset E (game c)) (butlast (moveHistory (gameState c))) = Returns g0 \<and>
    chess_move E g0 (MoveSan (last (moveHistory (gameState c)))) = Moved (game c) \<longrightarrow>
      fen (gameState (snd (undoMove E c))) = chess_fen E g0)"
proof -
  assume undo: "chess_undo E (game c) = Some g'"
  then have snap: "undoMove E c = (True, updateGameState E (c\<lparr>game := g'\<rparr>))"
    by (simp add: undoMove_def)
  have pops: "moveHistory (gameState (snd (undoMove E c))) = butlast (moveHistory (gameState c))"
    if "undo_pops E" "moveHistory (gameState c) = chess_history E (game c)"
    using that undo snap by (simp add: undo_pops_def updateGameState_def)
  have restored: "fen (gameState (snd (undoMove E c))) = chess_fen E g0"
    if "undo_takes_back E"
      "chess_move E g0 (MoveSan (last (moveHistory (gameState c)))) = Moved (game c)"
  proof -
    from that have "chess_undo E (game c) = Some g0"
      unfolding undo_takes_back_def by blast
    with undo have "g' = g0" by simp
    with snap show ?thesis by (simp add: updateGameState_def)
  qed
  from snap pops restored show ?thesis by (simp add: updateGameState_def)
qed

text \<open>C7 (as amended) after 1. e4 e5, at the head of the history.\<close>

theorem undo_rereads_engine_witness:
  "chess_undo xE (game (chessGame x_played)) = Some \<lparr>x_pos = After_e4, x_past = [(Start, ''e4'')]\<rparr> \<and>
   undo_pops xE \<and> undo_takes_back xE \<and>
   moveHistory (gameState (chessGame x_played)) = chess_history xE (game (chessGame x_played)) \<and>
   replay xE (chess_reset xE (game (chessGame x_played)))
     (butlast (moveHistory (gameState (chessGame x_played)))) =
     Returns \<lparr>x_pos = After_e4, x_past = [(Start, ''e4'')]\<rparr> \<and>
   chess_move xE \<lparr>x_pos = After_e4, x_past = [(Start, ''e4'')]\<rparr>
     (MoveSan (last (moveHistory (gameState (chessGame x_played))))) =
     Moved (game (chessGame x_played)) \<and>
   fst (undoMove xE (chessGame x_played)) \<and>
   moveHistory (gameState (snd (undoMove xE (chessGame x_played)))) = [''e4''] \<and>
   currentMoveIndex (gameState (snd (undoMove xE (chessGame x_played)))) = 0 \<and>
   fen (gameState (snd (undoMove xE (chessGame x_played)))) = x_fen After_e4"
proof -
  let ?g0 = "\<lparr>x_pos = After_e4, x_past = [(Start, ''e4'')]\<rparr>"
  have undo: "chess_undo xE (game (chessGame x_played)) = Some ?g0"
    by (simp add: x_played_eq x_engine_simps)
  have sync: "moveHistory (gameState (chessGame x_played)) =
      chess_history xE (game (chessGame x_played))"
    by (simp add: x_played_eq x_engine_simps)
  have prefix: "replay xE (chess_reset xE (game (chessGame x_played)))
      (butlast (moveHistory (gameState (chessGame x_played)))) = Returns ?g0"
    by (simp add: x_played_eq x_engine_simps)
  have last: "chess_move xE ?g0 (MoveSan (last (moveHistory (gameState (chessGame x_played))))) =
      Moved (game (chessGame x_played))"
    by (simp add: x_played_eq x_engine_simps)
  have hist: "moveHistory (gameState (chessGame x_played)) = [''e4'', ''e5'']"
    by (simp add: x_played_eq)
  from undo_rereads_engine [OF undo, of ?g0] undo sync prefix last hist
    xE_undo_pops xE_undo_takes_back
  show ?thesis by (simp add: xE_def)
qed

text \<open>
  C7 (counterexample). After 1. e4 e5 and \<^verbatim>\<open>gotoMove(0)\<close> the history on screen still has
  both moves while the engine's object has one. A successful \<^verbatim>\<open>undoMove\<close> then leaves an
  empty \<open>moveHistory\<close> and the initial position, not the history without its last move (1.
  e4) nor the position that replaying it reaches.
\<close>

theorem undo_while_browsing_counterexample:
  "\<not> isActive (exploration x_browsing) \<and>
   moveHistory (gameState (chessGame x_browsing)) = [''e4'', ''e5''] \<and>
   fst (undoMove xE (chessGame x_browsing)) \<and>
   moveHistory (gameState (snd (undoMove xE (chessGame x_browsing)))) = [] \<and>
   moveHistory (gameState (snd (undoMove xE (chessGame x_browsing)))) \<noteq>
     butlast (moveHistory (gameState (chessGame x_browsing))) \<and>
   fen (gameState (snd (undoMove xE (chessGame x_browsing)))) = x_fen Start \<and>
   replay xE (chess_reset xE (game (chessGame x_browsing)))
     (butlast (moveHistory (gameState (chessGame x_browsing)))) =
     Returns \<lparr>x_pos = After_e4, x_past = [(Start, ''e4'')]\<rparr>"
  by (simp add: x_browsing_eq x_engine_simps hook_simps initialExploration_def)

section \<open>Leaving the exploration\<close>

text \<open>
  Entered at the start of a game, a line is left with the session as it was before
  (scenario 3 of the specification).
\<close>

lemma exit_restores_fresh_session: "handleExitExploration xE x_exploring = Returns x_session"
  by (simp add: x_exploring_eq x_engine_simps hook_simps coordinator_simps)

text \<open>
  A session that shows no move history when the line is left shows none afterwards,
  whatever history was saved on entry.
\<close>

lemma exit_keeps_history_empty:
  "moveHistory (gameState (chessGame s)) = [] \<Longrightarrow> load_clears_history E \<Longrightarrow>
   moveHistory (gameState (chessGame (state_of (handleExitExploration E s)))) = []"
  by (auto simp: handleExitExploration_def exitExploration_def gotoMove_def loadFen_def
      updateGameState_def load_clears_history_def Let_def split: option.splits)

text \<open>
  C1 (the code at a failing input). After the move e2-e4 the session has the history
  1. e4 at index 0. \<^verbatim>\<open>handleExplore\<close> of the line e7e5 followed by
  \<^verbatim>\<open>handleExitExploration\<close> restores the position, and leaves an empty \<open>moveHistory\<close> and
  \<open>currentMoveIndex = - 1\<close>: \<^verbatim>\<open>loadFen\<close> empties the history, and \<^verbatim>\<open>gotoMove\<close> of the saved
  index 0 is out of the range of the empty history it reads.
\<close>

theorem exit_exploration_loses_history:
  "fen (gameState (chessGame x_moved)) = x_fen After_e4 \<and>
   currentMoveIndex (gameState (chessGame x_moved)) = 0 \<and>
   moveHistory (gameState (chessGame x_moved)) = [''e4''] \<and>
   handleExitExploration xE (state_of (handleExplore xE x_moved (x_line [''e7e5'']))) =
     Returns
       \<lparr>chessGame =
          \<lparr>game = x_fresh After_e4,
           gameState = \<lparr>fen = x_fen After_e4, moveHistory = [], currentMoveIndex = - 1,
             isGameOver = False, turn = Turn_b\<rparr>\<rparr>,
        exploration = initialExploration\<rparr>"
  by (simp add: x_moved_eq x_engine_simps hook_simps coordinator_simps)

section \<open>Navigating the move history\<close>

lemma x_resumed_eq:
  "x_resumed =
     \<lparr>chessGame =
        \<lparr>game = \<lparr>x_pos = After_e4_e5, x_past = [(After_e4, ''e5'')]\<rparr>,
         gameState = \<lparr>fen = x_fen After_e4_e5, moveHistory = [''e5''], currentMoveIndex = 0,
           isGameOver = False, turn = Turn_w\<rparr>\<rparr>,
      exploration = initialExploration\<rparr>"
  by (simp add: x_resumed_def x_left_def x_moved_eq handleMove_def x_engine_simps hook_simps
      coordinator_simps)

lemma x_rewound_eq:
  "x_rewound =
     \<lparr>game = x_fresh Start,
      gameState = \<lparr>fen = x_fen Start, moveHistory = [''e5''], currentMoveIndex = - 1,
        isGameOver = False, turn = Turn_w\<rparr>\<rparr>"
  by (simp add: x_rewound_def x_resumed_eq x_engine_simps hook_simps)

lemma thenMove_None: "foldl (thenMove E) None ms = None"
  by (induction ms) (simp_all add: thenMove_def)

lemma spec_replay_Nil: "spec_replay E g [] = Some g"
  by (simp add: spec_replay_def)

lemma spec_replay_Cons:
  "spec_replay E g (m # ms) =
     (case chess_move E g (MoveSan m) of
        Moved g' \<Rightarrow> spec_replay E g' ms
      | ReturnedNull \<Rightarrow> None
      | Threw \<Rightarrow> None)"
  by (simp add: spec_replay_def thenMove_def thenMove_None split: move_result.split)

lemma replay_refines_spec_replay:
  "spec_replay E g ms = Some g' \<Longrightarrow> replay E g ms = Returns g'"
proof (induction ms arbitrary: g)
  case Nil
  then show ?case by (simp add: spec_replay_Nil)
next
  case (Cons m ms)
  show ?case
  proof (cases "chess_move E g (MoveSan m)")
    case (Moved g1)
    with Cons.prems have "spec_replay E g1 ms = Some g'"
      by (simp add: spec_replay_Cons)
    then have "replay E g1 ms = Returns g'" by (rule Cons.IH)
    with Moved show ?thesis by simp
  next
    case ReturnedNull
    with Cons.prems show ?thesis by (simp add: spec_replay_Cons)
  next
    case Threw
    with Cons.prems show ?thesis by (simp add: spec_replay_Cons)
  qed
qed

text \<open>
  When the engine throws on a recorded move, the exception leaves \<^verbatim>\<open>gotoMove\<close>: the object
  stays as the replay left it and \<^verbatim>\<open>gameState\<close> is not set.
\<close>

lemma gotoMove_throws:
  "- 1 \<le> k \<Longrightarrow> k < int (length (moveHistory rendered)) \<Longrightarrow>
   replay E (chess_reset E (game c)) (take (nat (k + 1)) (moveHistory rendered)) = Throws g' \<Longrightarrow>
   gotoMove E rendered c k = Throws (c\<lparr>game := g'\<rparr>)"
  by (simp add: gotoMove_def)

text \<open>
  C4 (as amended). For an index \<open>k\<close> from \<open>- 1\<close> to the last index of the move history such
  that the engine makes each of the first \<open>k + 1\<close> recorded moves in turn from the initial
  position, \<^verbatim>\<open>gotoMove\<close> sets the position to the one that this replay reaches (and the
  game-over flag and the turn with it) and \<open>currentMoveIndex\<close> to \<open>k\<close>, and leaves
  \<open>moveHistory\<close> as it was. For every index outside that range it changes nothing.
\<close>

theorem gotoMove_replays_prefix:
  "(- 1 \<le> k \<and> k < int (length (moveHistory (gameState c))) \<and>
    spec_replay E (chess_reset E (game c)) (take (nat (k + 1)) (moveHistory (gameState c))) =
      Some g'
    \<longrightarrow> gotoMove E (gameState c) c k =
          Returns
            \<lparr>game = g',
             gameState =
               \<lparr>fen = chess_fen E g',
                moveHistory = moveHistory (gameState c),
                currentMoveIndex = k,
                isGameOver = chess_isGameOver E g',
                turn = chess_turn E g'\<rparr>\<rparr>) \<and>
   (k < - 1 \<or> int (length (moveHistory (gameState c))) \<le> k
    \<longrightarrow> gotoMove E (gameState c) c k = Returns c)"
proof (intro conjI impI)
  assume a: "- 1 \<le> k \<and> k < int (length (moveHistory (gameState c))) \<and>
    spec_replay E (chess_reset E (game c)) (take (nat (k + 1)) (moveHistory (gameState c))) =
      Some g'"
  then have "replay E (chess_reset E (game c)) (take (nat (k + 1)) (moveHistory (gameState c))) =
      Returns g'"
    by (simp add: replay_refines_spec_replay)
  with a show "gotoMove E (gameState c) c k =
      Returns
        \<lparr>game = g',
         gameState =
           \<lparr>fen = chess_fen E g',
            moveHistory = moveHistory (gameState c),
            currentMoveIndex = k,
            isGameOver = chess_isGameOver E g',
            turn = chess_turn E g'\<rparr>\<rparr>"
    by (simp add: gotoMove_def)
next
  assume "k < - 1 \<or> int (length (moveHistory (gameState c))) \<le> k"
  then show "gotoMove E (gameState c) c k = Returns c"
    by (auto simp: gotoMove_def)
qed

text \<open>
  C4 (as amended) after 1. e4 e5 (scenario 1 of the specification): from the first move
  of the history, index 1 replays both moves and shows the position after 1. e4 e5; index
  0 shows the position after 1. e4 and keeps both moves; the indices 2 and \<open>- 2\<close> are out
  of range.
\<close>

theorem gotoMove_replays_prefix_witness:
  "spec_replay xE (chess_reset xE (game (chessGame x_played)))
     (take (nat (1 + 1)) (moveHistory (gameState (chessGame x_played)))) =
     Some \<lparr>x_pos = After_e4_e5, x_past = [(Start, ''e4''), (After_e4, ''e5'')]\<rparr> \<and>
   spec_replay xE (chess_reset xE (game (chessGame x_browsing)))
     (take (nat (1 + 1)) (moveHistory (gameState (chessGame x_browsing)))) =
     Some \<lparr>x_pos = After_e4_e5, x_past = [(Start, ''e4''), (After_e4, ''e5'')]\<rparr> \<and>
   spec_replay xE (chess_reset xE (game (chessGame x_played)))
     (take (nat (0 + 1)) (moveHistory (gameState (chessGame x_played)))) =
     Some \<lparr>x_pos = After_e4, x_past = [(Start, ''e4'')]\<rparr> \<and>
   gotoMove xE (gameState (chessGame x_browsing)) (chessGame x_browsing) 1 =
     Returns
       \<lparr>game = \<lparr>x_pos = After_e4_e5, x_past = [(Start, ''e4''), (After_e4, ''e5'')]\<rparr>,
        gameState = \<lparr>fen = x_fen After_e4_e5, moveHistory = [''e4'', ''e5''],
          currentMoveIndex = 1, isGameOver = False, turn = Turn_w\<rparr>\<rparr> \<and>
   gotoMove xE (gameState (chessGame x_played)) (chessGame x_played) 0 =
     Returns
       \<lparr>game = \<lparr>x_pos = After_e4, x_past = [(Start, ''e4'')]\<rparr>,
        gameState = \<lparr>fen = x_fen After_e4, moveHistory = [''e4'', ''e5''],
          currentMoveIndex = 0, isGameOver = False, turn = Turn_b\<rparr>\<rparr> \<and>
   gotoMove xE (gameState (chessGame x_played)) (chessGame x_played) 2 =
     Returns (chessGame x_played) \<and>
   gotoMove xE (gameState (chessGame x_played)) (chessGame x_played) (- 2) =
     Returns (chessGame x_played)"
proof -
  let ?g1 = "\<lparr>x_pos = After_e4, x_past = [(Start, ''e4'')]\<rparr>"
  let ?g2 = "\<lparr>x_pos = After_e4_e5, x_past = [(Start, ''e4''), (After_e4, ''e5'')]\<rparr>"
  have two: "spec_replay xE (chess_reset xE (game (chessGame x_browsing)))
      (take (nat (1 + 1)) (moveHistory (gameState (chessGame x_browsing)))) = Some ?g2"
    by (simp add: x_browsing_eq spec_replay_Cons spec_replay_Nil x_engine_simps)
  have two': "spec_replay xE (chess_reset xE (game (chessGame x_played)))
      (take (nat (1 + 1)) (moveHistory (gameState (chessGame x_played)))) = Some ?g2"
    by (simp add: x_played_eq spec_replay_Cons spec_replay_Nil x_engine_simps)
  have one: "spec_replay xE (chess_reset xE (game (chessGame x_played)))
      (take (nat (0 + 1)) (moveHistory (gameState (chessGame x_played)))) = Some ?g1"
    by (simp add: x_played_eq spec_replay_Cons spec_replay_Nil x_engine_simps)
  have len: "moveHistory (gameState (chessGame x_played)) = [''e4'', ''e5'']"
    "moveHistory (gameState (chessGame x_browsing)) = [''e4'', ''e5'']"
    by (simp_all add: x_played_eq x_browsing_eq)
  from gotoMove_replays_prefix [of 1 "chessGame x_browsing" xE ?g2]
    gotoMove_replays_prefix [of 0 "chessGame x_played" xE ?g1]
    gotoMove_replays_prefix [of 2 "chessGame x_played" xE ?g1]
    gotoMove_replays_prefix [of "- 2" "chessGame x_played" xE ?g1]
    two two' one len
  show ?thesis by (simp add: xE_def)
qed

text \<open>
  C4 (counterexample). After the move e2-e4, a line entered and left, and the move e7-e5,
  the move history is 1. e5, recorded from the position after 1. e4. A click on that move
  is \<^verbatim>\<open>gotoMove(0)\<close>, in range: the engine is reset, refuses e5 from the initial position
  and throws, and no position and no index is set. After \<^verbatim>\<open>gotoMove(-1)\<close> on that history
  the index is \<open>- 1\<close>, and \<^verbatim>\<open>gotoMove(0)\<close> leaves it there.
\<close>

theorem gotoMove_loaded_history_counterexample:
  "\<not> isActive (exploration x_resumed) \<and>
   moveHistory (gameState (chessGame x_resumed)) = [''e5''] \<and>
   fen (gameState (chessGame x_resumed)) = x_fen After_e4_e5 \<and>
   spec_replay xE (chess_reset xE (game (chessGame x_resumed)))
     (take (nat (0 + 1)) (moveHistory (gameState (chessGame x_resumed)))) = None \<and>
   handleMoveClick xE x_resumed 0 =
     Throws (x_resumed\<lparr>chessGame := (chessGame x_resumed)\<lparr>game := x_fresh Start\<rparr>\<rparr>) \<and>
   gameState (chessGame (state_of (handleMoveClick xE x_resumed 0))) =
     gameState (chessGame x_resumed) \<and>
   currentMoveIndex (gameState x_rewound) = - 1 \<and>
   moveHistory (gameState x_rewound) = [''e5''] \<and>
   gotoMove xE (gameState x_rewound) x_rewound 0 = Throws x_rewound \<and>
   currentMoveIndex (gameState (state_of (gotoMove xE (gameState x_rewound) x_rewound 0))) \<noteq> 0"
  by (simp add: x_resumed_eq x_rewound_eq handleMoveClick_def spec_replay_Cons spec_replay_Nil
      x_engine_simps hook_simps initialExploration_def)

end
